theory Spec2Isabelle
  imports Complex_Main
begin

section \<open>Shared Python values\<close>

text \<open>
  The scripts of the repository are Python. Exceptions are values of \<open>py_error\<close>; a
  function that can raise returns \<open>py_error + 'a\<close> with \<open>Inl\<close> for the exception.
  \<open>UnboundLocalError\<close> is the subclass of \<open>NameError\<close> that Python raises when a local
  variable is read before it is assigned.
\<close>

datatype py_error =
    ValueError
  | KeyError
  | TypeError
  | IndexError
  | UnboundLocalError
  | ZeroDivisionError
  | FileNotFoundError
  | ParserError
  | FfmpegError

definition is_NameError :: "py_error \<Rightarrow> bool" where
  "is_NameError e = (e = UnboundLocalError)"

text \<open>Python's \<open>str.isspace\<close> on the ASCII range, and \<open>str.strip()\<close>.\<close>

definition is_space :: "char \<Rightarrow> bool" where
  "is_space c = (c \<in> set [CHR '' '', CHR 0x09, CHR 0x0A, CHR 0x0B, CHR 0x0C, CHR 0x0D,
                           CHR 0x1C, CHR 0x1D, CHR 0x1E, CHR 0x1F])"

definition strip :: "string \<Rightarrow> string" where
  "strip s = rev (dropWhile is_space (rev (dropWhile is_space s)))"

definition startswith :: "string \<Rightarrow> string \<Rightarrow> bool" where
  "startswith s pre = (take (length pre) s = pre)"

definition endswith :: "string \<Rightarrow> string \<Rightarrow> bool" where
  "endswith s suf = (length suf \<le> length s \<and> drop (length s - length suf) s = suf)"


text \<open>\<open>str.lower()\<close> on the ASCII range.\<close>

definition lower_char :: "char \<Rightarrow> char" where
  "lower_char c =
     (if of_char CHR ''A'' \<le> (of_char c :: nat) \<and> (of_char c :: nat) \<le> of_char CHR ''Z''
      then char_of (of_char c + 32 :: nat) else c)"

definition lower :: "string \<Rightarrow> string" where
  "lower s = map lower_char s"

section \<open>The path functions of Python's \<open>posixpath\<close>\<close>

text \<open>
  The scripts run on hard-coded POSIX paths and call \<open>os.path.basename\<close>,
  \<open>os.path.dirname\<close>, \<open>os.path.splitext\<close> and \<open>os.path.join\<close>. These are library
  functions; they are written here after their CPython definitions: \<open>basename\<close> is what
  follows the last slash, \<open>dirname\<close> is what precedes it with trailing slashes removed
  unless it consists of slashes only, \<open>splitext\<close> splits at the last dot of the last
  component unless only dots precede it there, and \<open>join\<close> (of two arguments) restarts
  at an absolute second argument and inserts a slash unless the first argument is empty
  or already ends with one.
\<close>

definition basename :: "string \<Rightarrow> string" where
  "basename p = rev (takeWhile (\<lambda>c. c \<noteq> CHR ''/'') (rev p))"

definition dirname :: "string \<Rightarrow> string" where
  "dirname p =
     (let head = rev (dropWhile (\<lambda>c. c \<noteq> CHR ''/'') (rev p))
      in if head \<noteq> [] \<and> \<not> list_all (\<lambda>c. c = CHR ''/'') head
         then rev (dropWhile (\<lambda>c. c = CHR ''/'') (rev head))
         else head)"

definition splitext :: "string \<Rightarrow> string \<times> string" where
  "splitext p =
     (let b = basename p;
          n = length (takeWhile (\<lambda>c. c \<noteq> CHR ''.'') (rev b));
          stem = take (length b - n - 1) b
      in if CHR ''.'' \<in> set b \<and> list_ex (\<lambda>c. c \<noteq> CHR ''.'') stem
         then (take (length p - n - 1) p, drop (length p - n - 1) p)
         else (p, []))"

definition join :: "string \<Rightarrow> string \<Rightarrow> string" where
  "join a b =
     (if startswith b ''/'' then b
      else if a = [] \<or> endswith a ''/'' then a @ b
      else a @ ''/'' @ b)"

section \<open>Tables\<close>

text \<open>
  A pandas \<open>DataFrame\<close> is its list of column names and its list of rows. A cell is a
  string, a float (the missing value \<open>nan\<close> among them) or a timestamp in nanoseconds
  (\<open>NaT\<close> when missing). Files hold tables; the text form of a CSV file is not modelled.
\<close>

datatype pyfloat = Finite rat | PosInf | NegInf | NaN

datatype cell = Text string | Num pyfloat | Time int | NaT

record dataframe =
  columns :: "string list"
  rows :: "cell list list"

fun index_of :: "'a \<Rightarrow> 'a list \<Rightarrow> nat option" where
  "index_of x [] = None"
| "index_of x (y # ys) = (if x = y then Some 0 else map_option Suc (index_of x ys))"

text \<open>A row that is shorter than the header reads as missing there.\<close>

definition cell_at :: "cell list \<Rightarrow> nat \<Rightarrow> cell" where
  "cell_at r i = (if i < length r then r ! i else Num NaN)"

text \<open>
  \<open>Series.apply\<close> on one column: the function is applied row by row and the first
  exception ends the whole operation.
\<close>

fun apply_column ::
  "(cell \<Rightarrow> py_error + cell) \<Rightarrow> nat \<Rightarrow> cell list list \<Rightarrow> py_error + cell list list" where
  "apply_column f i [] = Inr []"
| "apply_column f i (r # rs) =
     (case f (cell_at r i) of
        Inl e \<Rightarrow> Inl e
      | Inr c \<Rightarrow> (case apply_column f i rs of
                    Inl e \<Rightarrow> Inl e
                  | Inr rs' \<Rightarrow> Inr (r[i := c] # rs')))"

section \<open>matchdepth.py: matching image timestamps against the ROV-CTD log\<close>

text \<open>
  A timestamp is an instant in UTC, counted in nanoseconds since the epoch (the
  resolution of the \<open>datetime64\<close> arrays the function subtracts). Rows whose timestamp
  is missing (\<open>NaT\<close>) are outside this model. \<open>defase\<close> and \<open>threshold\<close> are whole
  seconds, as the docstring of \<open>find_matching_timestamps\<close> says.
\<close>

definition ns_per_second :: int where
  "ns_per_second = 1000000000"

definition add_seconds :: "int \<Rightarrow> int \<Rightarrow> int" where
  "add_seconds dt seconds = dt + seconds * ns_per_second"

text \<open>
  \<open>df1\<close> is the log table and \<open>df2\<close> the image table; each is the list of its rows, with
  the columns the function reads.
\<close>

record 'd log_row =
  timestamp :: int
  rov_ctd_pressure :: string
  depth :: "'d"

record image_row =
  iso_datetime :: int
  instrument_type :: string
  path :: string

text \<open>
  The depth reported in a match: the stripped text of \<open>rov_ctd_pressure\<close> when the
  module-level flag \<open>raw\<close> is set, the value of the \<open>depth\<close> column otherwise.
\<close>

datatype 'd depth_value = Pressure_text string | Depth_column 'd

definition depth_rovctd :: "bool \<Rightarrow> 'd log_row \<Rightarrow> 'd depth_value" where
  "depth_rovctd raw r =
     (if raw then Pressure_text (strip (rov_ctd_pressure r)) else Depth_column (depth r))"

text \<open>
  One entry of \<open>diff_matrix\<close>: the log timestamp minus the adjusted image timestamp,
  cast to whole seconds (the cast of \<open>timedelta64\<close> rounds towards minus infinity, as
  \<open>div\<close> on \<open>int\<close> does), then its absolute value.
\<close>

definition diff_entry :: "int \<Rightarrow> int \<Rightarrow> int" where
  "diff_entry ts_log ts_img_adjusted = \<bar>(ts_log - ts_img_adjusted) div ns_per_second\<bar>"

text \<open>\<open>numpy.argmin\<close> of a row: the index of the first occurrence of the minimum.\<close>

fun argmin :: "int list \<Rightarrow> nat" where
  "argmin [] = 0"
| "argmin [x] = 0"
| "argmin (x # y # ys) =
     (let j = argmin (y # ys) in if x \<le> (y # ys) ! j then 0 else Suc j)"

type_synonym 'd match = "int \<times> 'd depth_value \<times> int \<times> string"

text \<open>
  \<open>find_matching_timestamps\<close>. With an empty log table the reduction over an empty
  axis raises \<open>ValueError\<close>. A result tuple is
  \<open>(ts_img, depth_rovctd, ts_rovctd, img_path)\<close>, in the source's order and with the
  source's names: \<open>ts_img\<close> is read from the log row and \<open>ts_rovctd\<close> from the image row.
\<close>

definition find_matching_timestamps ::
  "bool \<Rightarrow> 'd log_row list \<Rightarrow> image_row list \<Rightarrow> int \<Rightarrow> int \<Rightarrow> py_error + 'd match list" where
  "find_matching_timestamps raw df1 df2 defase threshold =
     (if df1 = [] then Inl ValueError
      else
        let adjusted_iso_datetime = map (\<lambda>r. add_seconds (iso_datetime r) defase) df2;
            diff_matrix = map (\<lambda>a. map (\<lambda>l. diff_entry (timestamp l) a) df1) adjusted_iso_datetime;
            min_indices = map argmin diff_matrix;
            min_values = map min_list diff_matrix
        in Inr (concat (map (\<lambda>(i, min_idx).
                  if min_values ! i \<le> threshold
                  then [(timestamp (df1 ! min_idx), depth_rovctd raw (df1 ! min_idx),
                         iso_datetime (df2 ! i), path (df2 ! i))]
                  else [])
                (enumerate 0 min_indices))))"

text \<open>
  The quantities the properties below speak about: the whole-second distance between a
  log row and an image row after the clock offset, and the log row \<open>argmin\<close> selects.
\<close>

definition seconds_apart :: "int \<Rightarrow> 'd log_row \<Rightarrow> image_row \<Rightarrow> int" where
  "seconds_apart defase l r = diff_entry (timestamp l) (add_seconds (iso_datetime r) defase)"

definition nearest_log :: "'d log_row list \<Rightarrow> int \<Rightarrow> image_row \<Rightarrow> 'd log_row" where
  "nearest_log df1 defase r = df1 ! argmin (map (\<lambda>l. seconds_apart defase l r) df1)"


text \<open>A small log table and image table on which the properties are exercised.\<close>

definition example_log :: "nat log_row list" where
  "example_log =
     [\<lparr>timestamp = 100000000000, rov_ctd_pressure = '' 12.5 '', depth = 12\<rparr>,
      \<lparr>timestamp = 110000000000, rov_ctd_pressure = '' 14.0 '', depth = 14\<rparr>]"

definition example_images :: "image_row list" where
  "example_images =
     [\<lparr>iso_datetime = 171500000000, instrument_type = ''ISIIS'', path = ''/data/CFE_a.jpg''\<rparr>,
      \<lparr>iso_datetime = 300000000000, instrument_type = ''ISIIS'', path = ''/data/CFE_b.jpg''\<rparr>,
      \<lparr>iso_datetime = 180200000000, instrument_type = ''ISIIS'', path = ''/data/CFE_c.jpg''\<rparr>]"

section \<open>choosing-data.py: selecting the depth-annotated images\<close>

text \<open>
  \<open>os.walk\<close> yields one triple \<open>(root, dirs, files)\<close> per directory; a walk is the list of
  these triples in the order they are produced. \<open>keeps_image\<close> is the condition of line
  32 of the script, \<open>file[-4:]\<close> being the last four characters of the name (the whole
  name when it is shorter).
\<close>

definition image_extensions :: "string list" where
  "image_extensions = [''.png'', ''.jpg'', ''.jpeg'', ''.gif'', ''.bmp'', ''.tiff'']"

definition last4 :: "string \<Rightarrow> string" where
  "last4 file = drop (length file - 4) file"

definition keeps_image :: "string \<Rightarrow> bool" where
  "keeps_image file =
     (list_ex (endswith (lower file)) image_extensions \<and>
      startswith file ''CFE'' \<and>
      endswith file (CHR ''m'' # last4 file))"

type_synonym walk = "(string \<times> string list \<times> string list) list"

definition get_all_images :: "walk \<Rightarrow> string list" where
  "get_all_images directory =
     concat (map (\<lambda>(root, dirs, files). map (join root) (filter keeps_image files)) directory)"

definition example_walk :: walk where
  "example_walk =
     [(''/img'', [''day1''], [''CFE_cam-1_0001_12.5m.jpg'', ''CFE_cam-1_0002.jpg'', ''notes.txt'']),
      (''/img/day1'', [], [''CFE_cam-1_0003_7.0m.jpeg'', ''CFE_cam-1_0004_7.1m.tiff'',
                           ''CFE_cam-1_0005_7.2m.PNG'', ''cfe_cam-1_0006_7.3m.png''])]"

section \<open>videos2frames.py: sampling frames of a video\<close>

text \<open>
  A video is the list of the frames that \<open>cap.read()\<close> delivers before it first fails; a
  capture that cannot be opened delivers none. \<open>fps\<close> is the frame rate the capture
  reports, truncated to an integer, and is never negative. The effect of the function is
  the list of the images it has written, each with the running number \<open>saved_frames\<close>
  that names its file, together with the exception that ended it, if any.
\<close>

fun frame_loop ::
  "int \<Rightarrow> 'f list \<Rightarrow> nat \<Rightarrow> nat \<Rightarrow> (nat \<times> 'f) list \<Rightarrow> (nat \<times> 'f) list \<times> py_error option" where
  "frame_loop frame_interval [] count saved_frames written = (written, None)"
| "frame_loop frame_interval (frame # rest) count saved_frames written =
     (if frame_interval = 0 then (written, Some ZeroDivisionError)
      else if int count mod frame_interval = 0
      then frame_loop frame_interval rest (Suc count) (Suc saved_frames)
             (written @ [(saved_frames, frame)])
      else frame_loop frame_interval rest (Suc count) saved_frames written)"

definition extract_frames :: "nat \<Rightarrow> int \<Rightarrow> 'f list \<Rightarrow> (nat \<times> 'f) list \<times> py_error option" where
  "extract_frames fps frame_rate video =
     (if frame_rate = 0 then ([], Some ZeroDivisionError)
      else frame_loop (int fps div frame_rate) video 0 0 [])"

section \<open>videos2mp4.py: converting AVI videos to MP4\<close>

text \<open>
  The file system is a map from paths to file contents. The encoder is a parameter: from
  the input file (or its absence) it either produces the converted file, or fails and
  leaves at the output path nothing or a partial file; a failure raises.
\<close>

datatype 'c ffmpeg_result = Converted 'c | Failed "'c option"

definition output_mp4 :: "string \<Rightarrow> string \<Rightarrow> string" where
  "output_mp4 video_path output_dir =
     join output_dir (fst (splitext (basename video_path)) @ ''.mp4'')"

definition convert_avi_to_mp4 ::
  "('c option \<Rightarrow> 'c ffmpeg_result) \<Rightarrow> (string \<rightharpoonup> 'c) \<Rightarrow> string \<Rightarrow> string
     \<Rightarrow> (string \<rightharpoonup> 'c) \<times> (py_error + string)" where
  "convert_avi_to_mp4 ffmpeg fs video_path output_dir =
     (let out = output_mp4 video_path output_dir
      in if fs out \<noteq> None then (fs, Inr out)
         else (case ffmpeg (fs video_path) of
                 Converted c \<Rightarrow> (fs(out \<mapsto> c), Inr out)
               | Failed None \<Rightarrow> (fs, Inl FfmpegError)
               | Failed (Some c) \<Rightarrow> (fs(out \<mapsto> c), Inl FfmpegError)))"

text \<open>
  A run of the script is a sequence of calls, one per video found, each with its own
  output directory; the file system is threaded through them.
\<close>

fun convert_videos ::
  "('c option \<Rightarrow> 'c ffmpeg_result) \<Rightarrow> (string \<rightharpoonup> 'c) \<Rightarrow> (string \<times> string) list
     \<Rightarrow> (string \<rightharpoonup> 'c)" where
  "convert_videos ffmpeg fs [] = fs"
| "convert_videos ffmpeg fs ((video_path, output_dir) # rest) =
     convert_videos ffmpeg (fst (convert_avi_to_mp4 ffmpeg fs video_path output_dir)) rest"

definition example_ffmpeg :: "nat option \<Rightarrow> nat ffmpeg_result" where
  "example_ffmpeg input = (case input of None \<Rightarrow> Failed None | Some c \<Rightarrow> Converted (c + 100))"

definition example_fs :: "string \<rightharpoonup> nat" where
  "example_fs = map_of [(''/in/a.avi'', 1), (''/in/b.avi'', 2), (''/out/a.mp4'', 7)]"

definition example_calls :: "(string \<times> string) list" where
  "example_calls = [(''/in/a.avi'', ''/out''), (''/in/b.avi'', ''/out'')]"

section \<open>change-path.py: rewriting the image paths of CSV files\<close>

text \<open>
  The folder is the list of its entries in the order \<open>os.listdir\<close> returns them, each
  with what the file holds: a table, or something \<open>read_csv\<close> raises on. The lambda
  of line 26 calls \<open>os.path.basename\<close>, which raises \<open>TypeError\<close> on a cell that is not
  a string.
\<close>

datatype csv_file = Csv dataframe | Not_csv

datatype message = Changed_successfully string | An_error_occurred py_error

definition new_path_cell :: "string \<Rightarrow> cell \<Rightarrow> py_error + cell" where
  "new_path_cell new_image_path x =
     (case x of
        Text s \<Rightarrow> Inr (Text (join new_image_path (basename s)))
      | _ \<Rightarrow> Inl TypeError)"

definition rewrite_file :: "string \<Rightarrow> csv_file \<Rightarrow> py_error + csv_file" where
  "rewrite_file new_image_path file =
     (case file of
        Not_csv \<Rightarrow> Inl ParserError
      | Csv df \<Rightarrow>
          (case index_of ''image_path'' (columns df) of
             None \<Rightarrow> Inl KeyError
           | Some i \<Rightarrow>
               (case apply_column (new_path_cell new_image_path) i (rows df) of
                  Inl e \<Rightarrow> Inl e
                | Inr rs \<Rightarrow> Inr (Csv (df\<lparr>rows := rs\<rparr>)))))"

text \<open>
  The loop of lines 15 to 32, inside the single \<open>try\<close> of line 13: it returns the folder
  as it is when the loop ends, the lines printed, and the exception that ended it, if
  any.
\<close>

fun change_loop ::
  "string \<Rightarrow> (string \<times> csv_file) list
     \<Rightarrow> (string \<times> csv_file) list \<times> message list \<times> py_error option" where
  "change_loop new_image_path [] = ([], [], None)"
| "change_loop new_image_path ((filename, file) # rest) =
     (if endswith filename ''.csv''
      then (case rewrite_file new_image_path file of
              Inl e \<Rightarrow> ((filename, file) # rest, [], Some e)
            | Inr file' \<Rightarrow>
                (case change_loop new_image_path rest of
                   (rest', out, err) \<Rightarrow>
                     ((filename, file') # rest', Changed_successfully filename # out, err)))
      else (case change_loop new_image_path rest of
              (rest', out, err) \<Rightarrow> ((filename, file) # rest', out, err)))"

definition change_image_paths ::
  "(string \<times> csv_file) list \<Rightarrow> string \<Rightarrow> (string \<times> csv_file) list \<times> message list" where
  "change_image_paths csv_folder new_image_path =
     (case change_loop new_image_path csv_folder of
        (folder', out, None) \<Rightarrow> (folder', out)
      | (folder', out, Some e) \<Rightarrow> (folder', out @ [An_error_occurred e]))"

text \<open>
  What the docstring assumes of a CSV file: it reads as a table whose column
  \<open>image_path\<close> holds the path of an image in every row. Column names are distinct and
  rows have the length of the header, as \<open>read_csv\<close> delivers them.
\<close>

definition is_text :: "cell \<Rightarrow> bool" where
  "is_text c = (case c of Text s \<Rightarrow> True | _ \<Rightarrow> False)"

definition has_image_paths :: "csv_file \<Rightarrow> bool" where
  "has_image_paths file =
     (case file of
        Not_csv \<Rightarrow> False
      | Csv df \<Rightarrow>
          distinct (columns df) \<and>
          (case index_of ''image_path'' (columns df) of
             None \<Rightarrow> False
           | Some i \<Rightarrow> list_all (\<lambda>r. length r = length (columns df) \<and> is_text (r ! i)) (rows df)))"

text \<open>
  The rewriting as the specification words it: in every row the cell under
  \<open>image_path\<close> becomes the new base path joined with the base name of the old path, and
  every other cell stays.
\<close>

definition spec_rewrite_row :: "string \<Rightarrow> string list \<Rightarrow> cell list \<Rightarrow> cell list" where
  "spec_rewrite_row new_image_path cols r =
     map (\<lambda>(name, c). if name = ''image_path''
                       then (case c of Text s \<Rightarrow> Text (join new_image_path (basename s)) | _ \<Rightarrow> c)
                       else c)
         (zip cols r)"

definition spec_rewrite_file :: "string \<Rightarrow> csv_file \<Rightarrow> csv_file" where
  "spec_rewrite_file new_image_path file =
     (case file of
        Not_csv \<Rightarrow> Not_csv
      | Csv df \<Rightarrow> Csv (df\<lparr>rows := map (spec_rewrite_row new_image_path (columns df)) (rows df)\<rparr>))"

definition spec_rewrite_entry :: "string \<Rightarrow> string \<times> csv_file \<Rightarrow> string \<times> csv_file" where
  "spec_rewrite_entry new_image_path entry =
     (if endswith (fst entry) ''.csv''
      then (fst entry, spec_rewrite_file new_image_path (snd entry))
      else entry)"

definition csv_names :: "(string \<times> csv_file) list \<Rightarrow> string list" where
  "csv_names folder = filter (\<lambda>filename. endswith filename ''.csv'') (map fst folder)"

definition detections :: csv_file where
  "detections = Csv \<lparr>columns = [''image_path'', ''label''],
                      rows = [[Text ''/old/dir/CFE_1.jpg'', Text ''copepod''],
                              [Text ''/old/CFE_2.jpg'', Num (Finite 3)]]\<rparr>"

definition no_path_column :: csv_file where
  "no_path_column = Csv \<lparr>columns = [''label''], rows = [[Text ''copepod'']]\<rparr>"

definition detections_rewritten :: csv_file where
  "detections_rewritten = Csv \<lparr>columns = [''image_path'', ''label''],
                      rows = [[Text ''/new/CFE_1.jpg'', Text ''copepod''],
                              [Text ''/new/CFE_2.jpg'', Num (Finite 3)]]\<rparr>"

section \<open>matchdepth.py: filtering the log table by pressure\<close>

text \<open>
  \<open>Series.isin(['NO_PUB', 'NO_PROV'])\<close> on a cell, and \<open>Series.astype(float)\<close> on a
  column: a string is parsed by Python's \<open>float\<close>, which is the parameter \<open>float_of\<close>
  (\<open>None\<close> where it raises \<open>ValueError\<close>), a float stays, and the first cell that cannot be
  converted ends the conversion with its exception.
\<close>

definition is_no_data :: "cell \<Rightarrow> bool" where
  "is_no_data c = (c = Text ''NO_PUB'' \<or> c = Text ''NO_PROV'')"

definition as_float :: "(string \<Rightarrow> pyfloat option) \<Rightarrow> cell \<Rightarrow> py_error + pyfloat" where
  "as_float float_of c =
     (case c of
        Text s \<Rightarrow> (case float_of s of None \<Rightarrow> Inl ValueError | Some f \<Rightarrow> Inr f)
      | Num f \<Rightarrow> Inr f
      | Time t \<Rightarrow> Inl TypeError
      | NaT \<Rightarrow> Inl TypeError)"

fun astype_float :: "(string \<Rightarrow> pyfloat option) \<Rightarrow> cell list \<Rightarrow> py_error + pyfloat list" where
  "astype_float float_of [] = Inr []"
| "astype_float float_of (c # cs) =
     (case as_float float_of c of
        Inl e \<Rightarrow> Inl e
      | Inr f \<Rightarrow> (case astype_float float_of cs of
                    Inl e \<Rightarrow> Inl e
                  | Inr fs \<Rightarrow> Inr (f # fs)))"

text \<open>The comparison \<open>> 0\<close> on floats; it is false on \<open>nan\<close>.\<close>

definition positive :: "pyfloat \<Rightarrow> bool" where
  "positive f = (case f of Finite r \<Rightarrow> 0 < r | PosInf \<Rightarrow> True | NegInf \<Rightarrow> False | NaN \<Rightarrow> False)"

text \<open>
  \<open>filter_time_and_pressure_data\<close>. With \<open>filter_columns\<close> set, line 65 assigns the list
  of column names to \<open>filter_columns\<close> and line 70 reads the local \<open>filtered_df\<close>, which
  was never assigned. Otherwise the two columns are looked up (\<open>KeyError\<close> when one is
  absent), the rows with a no-data marker in either are dropped, the remaining
  \<open>rov_pressure\<close> cells are converted to float, and the rows with a positive value stay.
\<close>

definition filter_time_and_pressure_data ::
  "(string \<Rightarrow> pyfloat option) \<Rightarrow> dataframe \<Rightarrow> bool \<Rightarrow> py_error + dataframe" where
  "filter_time_and_pressure_data float_of df filter_columns =
     (if filter_columns then Inl UnboundLocalError
      else
        (case index_of ''rov_ctd_pressure'' (columns df) of
           None \<Rightarrow> Inl KeyError
         | Some i \<Rightarrow>
             (case index_of ''rov_pressure'' (columns df) of
                None \<Rightarrow> Inl KeyError
              | Some j \<Rightarrow>
                  (let filtered = filter (\<lambda>r. \<not> is_no_data (cell_at r i) \<and>
                                               \<not> is_no_data (cell_at r j)) (rows df)
                   in case astype_float float_of (map (\<lambda>r. cell_at r j) filtered) of
                        Inl e \<Rightarrow> Inl e
                      | Inr fs \<Rightarrow>
                          Inr (df\<lparr>rows := map fst (filter (\<lambda>(r, f). positive f)
                                                       (zip filtered fs))\<rparr>)))))"

text \<open>
  The rows the specification keeps: neither pressure cell is a no-data marker, and
  \<open>rov_pressure\<close> reads as a number that is strictly positive.
\<close>

definition spec_keeps_row :: "(string \<Rightarrow> pyfloat option) \<Rightarrow> nat \<Rightarrow> nat \<Rightarrow> cell list \<Rightarrow> bool" where
  "spec_keeps_row float_of i j r =
     (\<not> is_no_data (cell_at r i) \<and> \<not> is_no_data (cell_at r j) \<and>
      (case as_float float_of (cell_at r j) of Inl e \<Rightarrow> False | Inr f \<Rightarrow> positive f))"

definition readable :: "(string \<Rightarrow> pyfloat option) \<Rightarrow> nat \<Rightarrow> nat \<Rightarrow> cell list \<Rightarrow> bool" where
  "readable float_of i j r =
     (is_no_data (cell_at r i) \<or> is_no_data (cell_at r j) \<or>
      (case as_float float_of (cell_at r j) of Inl e \<Rightarrow> False | Inr f \<Rightarrow> True))"

definition example_float_of :: "string \<Rightarrow> pyfloat option" where
  "example_float_of s =
     (if s = ''12.5'' then Some (Finite (25 / 2))
      else if s = ''0.0'' then Some (Finite 0)
      else if s = ''-1'' then Some (Finite (- 1))
      else if s = ''nan'' then Some NaN
      else None)"

definition example_pressures :: dataframe where
  "example_pressures =
     \<lparr>columns = [''rov_ctd_pressure'', ''rov_pressure''],
      rows = [[Text ''12.4'', Text ''12.5''],
              [Text ''NO_PUB'', Text ''12.5''],
              [Text ''3.0'', Text ''NO_PROV''],
              [Text ''3.0'', Text ''0.0''],
              [Text ''3.0'', Text ''-1''],
              [Text ''3.0'', Num NaN]]\<rparr>"

section \<open>matchdepth.py: renaming the matched images\<close>

text \<open>
  The file system is a map from paths to file contents. \<open>os.rename\<close> moves the file at
  the source path to the destination path, replacing what is there, and raises when the
  source does not exist. The depth is put into the name by an f-string: a string stands
  as it is, a value of the \<open>depth\<close> column is printed by \<open>str_of\<close>, a parameter.
\<close>

definition os_rename :: "(string \<rightharpoonup> 'c) \<Rightarrow> string \<Rightarrow> string \<Rightarrow> py_error + (string \<rightharpoonup> 'c)" where
  "os_rename fs src dst =
     (case fs src of
        None \<Rightarrow> Inl FileNotFoundError
      | Some c \<Rightarrow> Inr ((fs(src := None))(dst \<mapsto> c)))"

definition depth_text :: "('d \<Rightarrow> string) \<Rightarrow> 'd depth_value \<Rightarrow> string" where
  "depth_text str_of dv = (case dv of Pressure_text s \<Rightarrow> s | Depth_column d \<Rightarrow> str_of d)"

text \<open>Lines 351 and 359 to 365: the path the file is renamed to.\<close>

definition new_file_path :: "('d \<Rightarrow> string) \<Rightarrow> 'd depth_value \<Rightarrow> string \<Rightarrow> string" where
  "new_file_path str_of dv p =
     (case splitext (basename p) of
        (original_name, extension) \<Rightarrow>
          (let suffix = ''_'' @ depth_text str_of dv @ ''m'';
               new_file_name = original_name @ suffix @ extension
           in join (dirname p) new_file_name))"

datatype rename_message =
    Skipping string
  | Renamed string string
  | Error_renaming string string py_error

text \<open>
  One iteration of the loop of lines 348 to 372, with the line it prints last; an
  exception of \<open>os.rename\<close> is caught and leaves the file system as it is.
\<close>

definition rename_match ::
  "('d \<Rightarrow> string) \<Rightarrow> (string \<rightharpoonup> 'c) \<Rightarrow> 'd match \<Rightarrow> (string \<rightharpoonup> 'c) \<times> rename_message" where
  "rename_match str_of fs m =
     (case m of
        (ts1, dv, ts2, p) \<Rightarrow>
          (case splitext (basename p) of
             (original_name, extension) \<Rightarrow>
               if endswith original_name ''m'' then (fs, Skipping p)
               else (case os_rename fs p (new_file_path str_of dv p) of
                       Inl e \<Rightarrow> (fs, Error_renaming p (new_file_path str_of dv p) e)
                     | Inr fs' \<Rightarrow> (fs', Renamed p (new_file_path str_of dv p)))))"

fun rename_matches ::
  "('d \<Rightarrow> string) \<Rightarrow> (string \<rightharpoonup> 'c) \<Rightarrow> 'd match list \<Rightarrow> (string \<rightharpoonup> 'c) \<times> rename_message list" where
  "rename_matches str_of fs [] = (fs, [])"
| "rename_matches str_of fs (m # ms) =
     (case rename_match str_of fs m of
        (fs', line) \<Rightarrow>
          (case rename_matches str_of fs' ms of
             (fs'', lines) \<Rightarrow> (fs'', line # lines)))"



section \<open>matchdepth.py: parsing a raw log file\<close>

































section \<open>Properties of the timestamp matching\<close>

lemma argmin_less: "xs \<noteq> [] \<Longrightarrow> argmin xs < length xs"
  by (induction xs rule: argmin.induct) (auto simp: Let_def)

lemma argmin_le: "x \<in> set xs \<Longrightarrow> xs ! argmin xs \<le> x"
  by (induction xs rule: argmin.induct) (auto simp: Let_def)

lemma argmin_min_list: "xs \<noteq> [] \<Longrightarrow> xs ! argmin xs = min_list xs"
  by (induction xs rule: argmin.induct) (auto simp: Let_def min_def dest: argmin_le)

lemma concat_map_if: "concat (map (\<lambda>x. if P x then [h x] else []) xs) = map h (filter P xs)"
  by (induction xs) auto

lemma enumerate_map_nth:
  "map (\<lambda>(i, y). F i y) (enumerate 0 (map g xs)) = map (\<lambda>i. F i (g (xs ! i))) [0..<length xs]"
  by (rule nth_equalityI) (auto simp: nth_enumerate_eq)

lemma map_upt_nth: "map (\<lambda>i. G (xs ! i)) [0..<length xs] = map G xs"
  by (rule nth_equalityI) auto

lemma nearest_log_in: "df1 \<noteq> [] \<Longrightarrow> nearest_log df1 defase r \<in> set df1"
  unfolding nearest_log_def by (rule nth_mem) (use argmin_less[of "map (\<lambda>l. seconds_apart defase l r) df1"] in simp)

lemma nearest_log_least:
  assumes "l \<in> set df1"
  shows "seconds_apart defase (nearest_log df1 defase r) r \<le> seconds_apart defase l r"
proof -
  let ?row = "map (\<lambda>l. seconds_apart defase l r) df1"
  have ne: "df1 \<noteq> []" using assms by auto
  have "argmin ?row < length df1" using argmin_less[of ?row] ne by simp
  then have "?row ! argmin ?row = seconds_apart defase (nearest_log df1 defase r) r"
    by (simp add: nearest_log_def)
  moreover have "?row ! argmin ?row \<le> seconds_apart defase l r"
    by (rule argmin_le) (use assms in auto)
  ultimately show ?thesis by simp
qed

lemma nearest_log_min:
  assumes "df1 \<noteq> []"
  shows "min_list (map (\<lambda>l. seconds_apart defase l r) df1) = seconds_apart defase (nearest_log df1 defase r) r"
proof -
  let ?row = "map (\<lambda>l. seconds_apart defase l r) df1"
  have "argmin ?row < length df1" using argmin_less[of ?row] assms by simp
  then have "?row ! argmin ?row = seconds_apart defase (nearest_log df1 defase r) r"
    by (simp add: nearest_log_def)
  then show ?thesis using argmin_min_list[of ?row] assms by simp
qed

lemma find_matching_timestamps_eq:
  assumes "df1 \<noteq> []"
  shows "find_matching_timestamps raw df1 df2 defase threshold =
     Inr (map (\<lambda>r. (timestamp (nearest_log df1 defase r), depth_rovctd raw (nearest_log df1 defase r),
                     iso_datetime r, path r))
           (filter (\<lambda>r. seconds_apart defase (nearest_log df1 defase r) r \<le> threshold) df2))"
proof -
  let ?row = "\<lambda>r. map (\<lambda>l. seconds_apart defase l r) df1"
  let ?F = "\<lambda>r. if min_list (?row r) \<le> threshold
              then [(timestamp (df1 ! argmin (?row r)), depth_rovctd raw (df1 ! argmin (?row r)),
                     iso_datetime r, path r)] else []"
  have "find_matching_timestamps raw df1 df2 defase threshold =
        Inr (concat (map (\<lambda>i. ?F (df2 ! i)) [0..<length df2]))"
    using assms
    apply (simp add: find_matching_timestamps_def Let_def seconds_apart_def o_def)
    apply (rule arg_cong[where f = concat])
    apply (rule nth_equalityI)
     apply (simp_all add: nth_enumerate_eq seconds_apart_def)
    done
  also have "\<dots> = Inr (concat (map ?F df2))"
    using map_upt_nth[of ?F df2] by (rule_tac arg_cong[where f = "\<lambda>x. Inr (concat x)"])
  finally show ?thesis
    using assms by (simp add: concat_map_if[symmetric] nearest_log_min nearest_log_def cong: map_cong)
qed



lemmas matching_eval =
  find_matching_timestamps_def Let_def diff_entry_def add_seconds_def ns_per_second_def
  depth_rovctd_def example_log_def example_images_def



text \<open>
  C2. Clock-offset correction: every reported match comes from an image row and a log
  row; the distance that was minimised and compared with the threshold is taken between
  the unshifted log timestamp and the image timestamp plus \<open>defase\<close> seconds, while the
  image timestamp and path in the tuple are the unadjusted ones.
\<close>

theorem find_matching_timestamps_offset:
  assumes "find_matching_timestamps raw df1 df2 defase threshold = Inr res"
    and "(ts_img, d, ts_rovctd, img_path) \<in> set res"
  shows "\<exists>r \<in> set df2. \<exists>l \<in> set df1.
           ts_rovctd = iso_datetime r \<and> img_path = path r \<and>
           ts_img = timestamp l \<and> d = depth_rovctd raw l \<and>
           \<bar>(timestamp l - (iso_datetime r + defase * 1000000000)) div 1000000000\<bar> \<le> threshold \<and>
           (\<forall>l' \<in> set df1.
              \<bar>(timestamp l - (iso_datetime r + defase * 1000000000)) div 1000000000\<bar>
              \<le> \<bar>(timestamp l' - (iso_datetime r + defase * 1000000000)) div 1000000000\<bar>)"
proof -
  have ne: "df1 \<noteq> []"
    using assms(1) by (auto simp: find_matching_timestamps_def)
  let ?n = "nearest_log df1 defase"
  from assms(1) have "res = map (\<lambda>r. (timestamp (?n r), depth_rovctd raw (?n r), iso_datetime r, path r))
                 (filter (\<lambda>r. seconds_apart defase (?n r) r \<le> threshold) df2)"
    by (simp add: find_matching_timestamps_eq[OF ne])
  with assms(2) obtain r where r: "r \<in> set df2" "seconds_apart defase (?n r) r \<le> threshold"
    "ts_img = timestamp (?n r)" "d = depth_rovctd raw (?n r)" "ts_rovctd = iso_datetime r" "img_path = path r"
    by auto
  have "\<forall>l' \<in> set df1. seconds_apart defase (?n r) r \<le> seconds_apart defase l' r"
    by (simp add: nearest_log_least)
  with r nearest_log_in[OF ne, of defase r] show ?thesis
    unfolding seconds_apart_def diff_entry_def add_seconds_def ns_per_second_def
    by blast
qed

theorem find_matching_timestamps_offset_witness:
  "find_matching_timestamps True example_log example_images (- 69) 8 =
     Inr [(100000000000, Pressure_text ''12.5'', 171500000000, ''/data/CFE_a.jpg''),
          (110000000000, Pressure_text ''14.0'', 180200000000, ''/data/CFE_c.jpg'')] \<and>
   (\<exists>r \<in> set example_images. \<exists>l \<in> set example_log.
       171500000000 = iso_datetime r \<and> ''/data/CFE_a.jpg'' = path r \<and>
       100000000000 = timestamp l \<and> Pressure_text ''12.5'' = depth_rovctd True l \<and>
       \<bar>(timestamp l - (iso_datetime r + (- 69) * 1000000000)) div 1000000000\<bar> \<le> 8)"
proof -
  have res: "find_matching_timestamps True example_log example_images (- 69) 8 =
     Inr [(100000000000, Pressure_text ''12.5'', 171500000000, ''/data/CFE_a.jpg''),
          (110000000000, Pressure_text ''14.0'', 180200000000, ''/data/CFE_c.jpg'')]"
    by (simp add: matching_eval strip_def is_space_def)
  have "(100000000000, Pressure_text ''12.5'', 171500000000, ''/data/CFE_a.jpg'')
        \<in> set [(100000000000::int, Pressure_text ''12.5'' :: nat depth_value, 171500000000::int, ''/data/CFE_a.jpg''),
          (110000000000, Pressure_text ''14.0'', 180200000000, ''/data/CFE_c.jpg'')]"
    by simp
  from find_matching_timestamps_offset [OF res this] res show ?thesis
    by blast
qed


section \<open>Properties of the path functions\<close>




lemma startswith_single: "startswith b [c] \<longleftrightarrow> b \<noteq> [] \<and> hd b = c"
  by (cases b) (auto simp: startswith_def)

















section \<open>Properties of the image filter\<close>

lemma keeps_image_four_letter_extensions:
  "keeps_image ''CFE_cam-1_0001_12.5m.jpg'' \<and> keeps_image ''CFE_cam-1_0005_7.2m.PNG'' \<and>
   \<not> keeps_image ''CFE_cam-1_0002.jpg'' \<and> \<not> keeps_image ''cfe_cam-1_0006_7.3m.png''"
  by code_simp

lemma five_letter_extension_dropped:
  assumes "endswith (lower file) [CHR ''.'', a, b, c, d]"
  shows "\<not> endswith file (CHR ''m'' # last4 file)"
proof
  assume m: "endswith file (CHR ''m'' # last4 file)"
  have n: "5 \<le> length file"
    using assms by (simp add: endswith_def lower_def)
  then have l4: "length (last4 file) = 4"
    by (simp add: last4_def)
  from m l4 have "drop (length file - 5) file = CHR ''m'' # last4 file"
    by (simp add: endswith_def)
  then have "map lower_char (drop (length file - 5) file) = lower_char CHR ''m'' # map lower_char (last4 file)"
    by simp
  moreover have "map lower_char (drop (length file - 5) file) = [CHR ''.'', a, b, c, d]"
    using assms by (simp add: endswith_def lower_def drop_map eval_nat_numeral)
  ultimately have "lower_char CHR ''m'' = CHR ''.''"
    by simp
  then show False
    by (simp add: lower_char_def)
qed

lemma keeps_image_never_jpeg_or_tiff:
  "endswith (lower file) ''.jpeg'' \<or> endswith (lower file) ''.tiff'' \<Longrightarrow> \<not> keeps_image file"
  using five_letter_extension_dropped by (auto simp: keeps_image_def)

text \<open>
  C6. The filter is meant to keep every file that has a recognised image extension,
  starts with \<open>CFE\<close> and carries the depth marker \<open>m\<close> right before the extension. For the
  five-character extensions \<open>.jpeg\<close> and \<open>.tiff\<close> the code compares the end of the name
  with \<open>m\<close> followed by its last four characters, which skips the dot: depth-annotated
  files with these extensions are never kept, as the lemma above shows for every
  name; here they are dropped from a walk over two directories.
\<close>

theorem get_all_images_drops_jpeg_and_tiff:
  "\<not> keeps_image ''CFE_cam-1_0003_7.0m.jpeg'' \<and>
   \<not> keeps_image ''CFE_cam-1_0004_7.1m.tiff'' \<and>
   get_all_images example_walk =
     [''/img/CFE_cam-1_0001_12.5m.jpg'', ''/img/day1/CFE_cam-1_0005_7.2m.PNG'']"
  by code_simp

section \<open>Properties of the frame extraction\<close>

lemma frame_loop_eq:
  "frame_interval \<noteq> 0 \<Longrightarrow>
   frame_loop frame_interval video count saved_frames written =
     (written @ enumerate saved_frames
        (map snd (filter (\<lambda>(i, frame). frame_interval dvd int i) (enumerate count video))), None)"
  by (induction video arbitrary: count saved_frames written) (auto simp: mod_eq_0_iff_dvd)

lemma frame_loop_zero:
  "frame_loop 0 video count saved_frames written =
     (written, if video = [] then None else Some ZeroDivisionError)"
  by (cases video) auto

text \<open>
  C9, as the code has it. The interval is \<open>fps div frame_rate\<close>. When it is not zero the
  function ends normally and has written, numbered from 0, exactly the frames whose index
  the interval divides. When \<open>fps < frame_rate\<close> the interval is zero and nothing is
  written; the modulo raises \<open>ZeroDivisionError\<close> at the first frame, so the exception
  occurs exactly when the video delivers at least one frame.
\<close>

theorem extract_frames_interval:
  "(frame_rate \<noteq> 0 \<and> int fps div frame_rate \<noteq> 0 \<longrightarrow>
      extract_frames fps frame_rate video =
        (enumerate 0 (map snd (filter (\<lambda>(i, frame). (int fps div frame_rate) dvd int i)
                                 (enumerate 0 video))), None)) \<and>
   (int fps < frame_rate \<longrightarrow>
      int fps div frame_rate = 0 \<and>
      extract_frames fps frame_rate video =
        ([], if video = [] then None else Some ZeroDivisionError))"
  by (auto simp: extract_frames_def frame_loop_eq frame_loop_zero div_pos_pos_trivial)

theorem extract_frames_interval_witness:
  "extract_frames 30 10 [10, 11, 12, 13, 14, 15, 16 :: nat] = ([(0, 10), (1, 13), (2, 16)], None) \<and>
   extract_frames 5 10 [10, 11, 12 :: nat] = ([], Some ZeroDivisionError)"
proof -
  have a: "(10::int) \<noteq> 0 \<and> int 30 div 10 \<noteq> 0" by simp
  have b: "int 5 < 10" by simp
  have "extract_frames 30 10 [10, 11, 12, 13, 14, 15, 16 :: nat] =
      (enumerate 0 (map snd (filter (\<lambda>(i, frame). (int 30 div 10) dvd int i)
                                 (enumerate 0 [10, 11, 12, 13, 14, 15, 16 :: nat]))), None)"
    using extract_frames_interval [of 10 30 "[10, 11, 12, 13, 14, 15, 16]"] a by blast
  moreover have "extract_frames 5 10 [10, 11, 12 :: nat] = ([], Some ZeroDivisionError)"
    using extract_frames_interval [of 10 5 "[10, 11, 12]"] b by simp
  ultimately show ?thesis by simp
qed

text \<open>
  The statement that the modulo always raises fails for a video that delivers no frame (a capture that could not
  be opened reports 0 frames per second): the loop body never runs, the modulo is never
  evaluated and the function returns normally.
\<close>

theorem extract_frames_empty_video_counterexample:
  "int 0 < 1 \<and> extract_frames 0 1 ([] :: nat list) = ([], None) \<and>
   snd (extract_frames 0 1 ([] :: nat list)) \<noteq> Some ZeroDivisionError"
  by (simp add: extract_frames_def)

section \<open>Properties of the conversion to MP4\<close>

lemma convert_keeps_existing:
  "fs p \<noteq> None \<Longrightarrow> fst (convert_avi_to_mp4 ffmpeg fs video_path output_dir) p = fs p"
  by (auto simp: convert_avi_to_mp4_def Let_def split: ffmpeg_result.splits option.splits)

lemma convert_videos_keeps_existing:
  "fs p \<noteq> None \<Longrightarrow> convert_videos ffmpeg fs calls p = fs p"
proof (induction calls arbitrary: fs)
  case Nil
  then show ?case by simp
next
  case (Cons call calls)
  obtain v d where call: "call = (v, d)" by (cases call)
  have "fst (convert_avi_to_mp4 ffmpeg fs v d) p = fs p"
    using Cons.prems by (rule convert_keeps_existing)
  then show ?case using Cons call by simp
qed

text \<open>
  C10. When the target MP4 exists the function returns its path and leaves the file
  system as it is; no call ever changes a file that exists; hence a second run over the
  same videos leaves every file present after the first run, the MP4s it produced among
  them, unchanged.
\<close>

theorem convert_avi_to_mp4_idempotent:
  "(fs (output_mp4 video_path output_dir) \<noteq> None \<longrightarrow>
      convert_avi_to_mp4 ffmpeg fs video_path output_dir =
        (fs, Inr (output_mp4 video_path output_dir))) \<and>
   (\<forall>p. fs p \<noteq> None \<longrightarrow>
      fst (convert_avi_to_mp4 ffmpeg fs video_path output_dir) p = fs p) \<and>
   (\<forall>p. convert_videos ffmpeg fs calls p \<noteq> None \<longrightarrow>
      convert_videos ffmpeg (convert_videos ffmpeg fs calls) calls p =
        convert_videos ffmpeg fs calls p)"
proof (intro conjI allI impI)
  assume "fs (output_mp4 video_path output_dir) \<noteq> None"
  then show "convert_avi_to_mp4 ffmpeg fs video_path output_dir =
      (fs, Inr (output_mp4 video_path output_dir))"
    by (simp add: convert_avi_to_mp4_def)
next
  fix p assume "fs p \<noteq> None"
  then show "fst (convert_avi_to_mp4 ffmpeg fs video_path output_dir) p = fs p"
    by (rule convert_keeps_existing)
next
  fix p assume "convert_videos ffmpeg fs calls p \<noteq> None"
  then show "convert_videos ffmpeg (convert_videos ffmpeg fs calls) calls p =
      convert_videos ffmpeg fs calls p"
    by (rule convert_videos_keeps_existing)
qed

theorem convert_avi_to_mp4_idempotent_witness:
  "output_mp4 ''/in/a.avi'' ''/out'' = ''/out/a.mp4'' \<and>
   example_fs ''/out/a.mp4'' = Some 7 \<and>
   convert_avi_to_mp4 example_ffmpeg example_fs ''/in/a.avi'' ''/out'' =
     (example_fs, Inr ''/out/a.mp4'') \<and>
   fst (convert_avi_to_mp4 example_ffmpeg example_fs ''/in/b.avi'' ''/out'') ''/out/a.mp4'' = Some 7 \<and>
   convert_videos example_ffmpeg example_fs example_calls ''/out/a.mp4'' = Some 7 \<and>
   convert_videos example_ffmpeg example_fs example_calls ''/out/b.mp4'' = Some 102 \<and>
   convert_videos example_ffmpeg (convert_videos example_ffmpeg example_fs example_calls)
     example_calls ''/out/b.mp4'' = Some 102"
proof -
  have out: "output_mp4 ''/in/a.avi'' ''/out'' = ''/out/a.mp4''"
    by code_simp
  have a: "example_fs ''/out/a.mp4'' = Some 7"
    by (simp add: example_fs_def)
  have r: "convert_videos example_ffmpeg example_fs example_calls ''/out/a.mp4'' = Some 7"
    "convert_videos example_ffmpeg example_fs example_calls ''/out/b.mp4'' = Some 102"
    by code_simp+
  note t = convert_avi_to_mp4_idempotent
    [of example_fs "''/in/a.avi''" "''/out''" example_ffmpeg example_calls]
  from t out a have "convert_avi_to_mp4 example_ffmpeg example_fs ''/in/a.avi'' ''/out'' =
     (example_fs, Inr ''/out/a.mp4'')"
    by simp
  moreover have "fst (convert_avi_to_mp4 example_ffmpeg example_fs ''/in/b.avi'' ''/out'')
      ''/out/a.mp4'' = Some 7"
    using convert_avi_to_mp4_idempotent
      [of example_fs "''/in/b.avi''" "''/out''" example_ffmpeg example_calls] a
    by simp
  moreover from t r(2) have "convert_videos example_ffmpeg
     (convert_videos example_ffmpeg example_fs example_calls) example_calls ''/out/b.mp4'' = Some 102"
    by simp
  ultimately show ?thesis using out a r by simp
qed

section \<open>Properties of the path rewriting\<close>

lemma index_of_Some: "index_of x xs = Some i \<Longrightarrow> i < length xs \<and> xs ! i = x"
  by (induction xs arbitrary: i) (auto split: if_splits)

lemma index_of_distinct:
  assumes "index_of x xs = Some i" "distinct xs" "j < length xs"
  shows "xs ! j = x \<longleftrightarrow> j = i"
  using assms index_of_Some[OF assms(1)] by (auto simp: nth_eq_iff_index_eq)

lemma spec_rewrite_row_eq:
  assumes "index_of ''image_path'' cols = Some i" "distinct cols"
    "length r = length cols" "r ! i = Text s"
  shows "spec_rewrite_row np cols r = r[i := Text (join np (basename s))]"
proof (rule nth_equalityI)
  show "length (spec_rewrite_row np cols r) = length (r[i := Text (join np (basename s))])"
    using assms by (simp add: spec_rewrite_row_def)
next
  fix j assume "j < length (spec_rewrite_row np cols r)"
  then have j: "j < length cols" using assms by (simp add: spec_rewrite_row_def)
  have "cols ! j = ''image_path'' \<longleftrightarrow> j = i"
    using index_of_distinct[OF assms(1,2) j] .
  then show "spec_rewrite_row np cols r ! j = r[i := Text (join np (basename s))] ! j"
    using j assms by (auto simp: spec_rewrite_row_def)
qed

lemma apply_column_ok:
  assumes "index_of ''image_path'' cols = Some i" "distinct cols"
    "list_all (\<lambda>r. length r = length cols \<and> is_text (r ! i)) rs"
  shows "apply_column (new_path_cell np) i rs = Inr (map (spec_rewrite_row np cols) rs)"
  using assms(3)
proof (induction rs)
  case Nil
  then show ?case by simp
next
  case (Cons r rs)
  from Cons.prems obtain s where s: "r ! i = Text s" and len: "length r = length cols"
    by (auto simp: is_text_def split: cell.splits)
  have i: "i < length r" using index_of_Some[OF assms(1)] len by simp
  show ?case
    using Cons s i spec_rewrite_row_eq[OF assms(1,2) len s, of np]
    by (simp add: cell_at_def new_path_cell_def)
qed

lemma rewrite_file_ok:
  "has_image_paths file \<Longrightarrow> rewrite_file np file = Inr (spec_rewrite_file np file)"
  by (auto simp: has_image_paths_def rewrite_file_def spec_rewrite_file_def apply_column_ok
           split: csv_file.splits option.splits)


lemma change_loop_failure:
  assumes "\<forall>entry \<in> set before. endswith (fst entry) ''.csv'' \<longrightarrow> has_image_paths (snd entry)"
    and "endswith filename ''.csv''" and "rewrite_file np file = Inl e"
  shows "change_loop np (before @ (filename, file) # rest) =
           (map (spec_rewrite_entry np) before @ (filename, file) # rest,
            map Changed_successfully (csv_names before), Some e)"
  using assms
  by (induction before) (auto simp: rewrite_file_ok spec_rewrite_entry_def csv_names_def)


text \<open>
  C4, as the code has it. The \<open>try\<close> encloses the whole loop: the first file whose
  processing fails ends it. The exception is caught and reported, the files listed
  before the failing one have been rewritten, and the failing file and every file after
  it are left as they were.
\<close>

theorem change_image_paths_stops_at_failure:
  assumes "\<forall>entry \<in> set before. endswith (fst entry) ''.csv'' \<longrightarrow> has_image_paths (snd entry)"
    and "endswith filename ''.csv''" and "rewrite_file new_image_path file = Inl e"
  shows "change_image_paths (before @ (filename, file) # rest) new_image_path =
           (map (spec_rewrite_entry new_image_path) before @ (filename, file) # rest,
            map Changed_successfully (csv_names before) @ [An_error_occurred e])"
  using change_loop_failure[OF assms] by (simp add: change_image_paths_def)


lemma detections_ok: "has_image_paths detections"
  by code_simp


theorem change_image_paths_stops_at_failure_witness:
  "rewrite_file ''/new'' no_path_column = Inl KeyError \<and>
   change_image_paths
     [(''b.csv'', detections), (''a.csv'', no_path_column), (''c.csv'', detections)] ''/new'' =
     ([(''b.csv'', detections_rewritten), (''a.csv'', no_path_column), (''c.csv'', detections)],
      [Changed_successfully ''b.csv'', An_error_occurred KeyError])"
proof -
  let ?before = "[(''b.csv'', detections)]"
  have h: "\<forall>entry \<in> set ?before. endswith (fst entry) ''.csv'' \<longrightarrow> has_image_paths (snd entry)"
    by (simp add: detections_ok)
  have e: "endswith ''a.csv'' ''.csv''"
    by code_simp
  have f: "rewrite_file ''/new'' no_path_column = Inl KeyError"
    by code_simp
  have "map (spec_rewrite_entry ''/new'') ?before = [(''b.csv'', detections_rewritten)]"
    by code_simp
  moreover have "csv_names ?before = [''b.csv'']"
    by code_simp
  ultimately show ?thesis
    using change_image_paths_stops_at_failure [OF h e f, of "[(''c.csv'', detections)]"] f
    by simp
qed

text \<open>
  Processing does not continue after a failure: with a file that lacks the column listed first, the good
  file after it is not processed, although processing it alone would rewrite it.
\<close>

theorem change_image_paths_continues_counterexample:
  "change_image_paths [(''a.csv'', no_path_column), (''b.csv'', detections)] ''/new'' =
     ([(''a.csv'', no_path_column), (''b.csv'', detections)], [An_error_occurred KeyError]) \<and>
   change_image_paths [(''b.csv'', detections)] ''/new'' =
     ([(''b.csv'', detections_rewritten)], [Changed_successfully ''b.csv'']) \<and>
   detections_rewritten \<noteq> detections"
  by code_simp

section \<open>Properties of the pressure filter\<close>

lemma astype_float_ok:
  "list_all (\<lambda>c. case as_float float_of c of Inl e \<Rightarrow> False | Inr f \<Rightarrow> True) cs \<Longrightarrow>
   astype_float float_of cs = Inr (map (\<lambda>c. projr (as_float float_of c)) cs)"
  by (induction cs) (auto split: sum.splits)

lemma filter_zip_map:
  "map fst (filter (\<lambda>(r, f). P f) (zip xs (map g xs))) = filter (\<lambda>r. P (g r)) xs"
  by (induction xs) auto

text \<open>
  C8. Called with \<open>filter_columns\<close> set, the function always raises the \<open>NameError\<close> of
  reading \<open>filtered_df\<close> before assignment, so it can only return when the flag is not
  set. Called without it, on a table that has both pressure columns and whose
  \<open>rov_pressure\<close> cells are readable as numbers wherever no no-data marker stands, it
  returns the table with exactly the rows in which neither pressure is \<open>NO_PUB\<close> or
  \<open>NO_PROV\<close> and \<open>rov_pressure\<close> is strictly positive.
\<close>

theorem filter_time_and_pressure_data_total_only_unfiltered:
  assumes "index_of ''rov_ctd_pressure'' (columns df) = Some i"
    and "index_of ''rov_pressure'' (columns df) = Some j"
    and "list_all (readable float_of i j) (rows df)"
  shows "filter_time_and_pressure_data float_of df True = Inl UnboundLocalError \<and>
         is_NameError UnboundLocalError \<and>
         filter_time_and_pressure_data float_of df False =
           Inr (df\<lparr>rows := filter (spec_keeps_row float_of i j) (rows df)\<rparr>)"
proof -
  let ?filtered = "filter (\<lambda>r. \<not> is_no_data (cell_at r i) \<and> \<not> is_no_data (cell_at r j)) (rows df)"
  have "list_all (\<lambda>c. case as_float float_of c of Inl e \<Rightarrow> False | Inr f \<Rightarrow> True)
          (map (\<lambda>r. cell_at r j) ?filtered)"
    using assms(3) by (auto simp: list_all_iff readable_def)
  then have conv: "astype_float float_of (map (\<lambda>r. cell_at r j) ?filtered) =
      Inr (map (\<lambda>r. projr (as_float float_of (cell_at r j))) ?filtered)"
    using astype_float_ok[of float_of "map (\<lambda>r. cell_at r j) ?filtered"] by (simp add: o_def)
  have "map fst (filter (\<lambda>(r, f). positive f)
          (zip ?filtered (map (\<lambda>r. projr (as_float float_of (cell_at r j))) ?filtered))) =
        filter (\<lambda>r. positive (projr (as_float float_of (cell_at r j)))) ?filtered"
    by (rule filter_zip_map)
  also have "\<dots> = filter (spec_keeps_row float_of i j) (rows df)"
  proof -
    have "(\<not> is_no_data (cell_at r i) \<and> \<not> is_no_data (cell_at r j) \<and>
           positive (projr (as_float float_of (cell_at r j)))) = spec_keeps_row float_of i j r"
      if "r \<in> set (rows df)" for r
    proof (cases "as_float float_of (cell_at r j)")
      case (Inl e)
      with that assms(3) show ?thesis
        by (auto simp: list_all_iff spec_keeps_row_def readable_def)
    next
      case (Inr f)
      then show ?thesis by (simp add: spec_keeps_row_def)
    qed
    then show ?thesis by (auto intro: filter_cong)
  qed
  finally show ?thesis
    using assms(1,2) conv
    by (simp add: filter_time_and_pressure_data_def is_NameError_def)
qed


theorem filter_time_and_pressure_data_total_only_unfiltered_witness:
  "filter_time_and_pressure_data example_float_of example_pressures True = Inl UnboundLocalError \<and>
   filter_time_and_pressure_data example_float_of example_pressures False =
     Inr \<lparr>columns = [''rov_ctd_pressure'', ''rov_pressure''],
          rows = [[Text ''12.4'', Text ''12.5'']]\<rparr>"
proof -
  have i: "index_of ''rov_ctd_pressure'' (columns example_pressures) = Some 0"
    by code_simp
  have j: "index_of ''rov_pressure'' (columns example_pressures) = Some 1"
    by code_simp
  have r: "list_all (readable example_float_of 0 1) (rows example_pressures)"
    by code_simp
  have "example_pressures\<lparr>rows := filter (spec_keeps_row example_float_of 0 1)
                                      (rows example_pressures)\<rparr> =
        \<lparr>columns = [''rov_ctd_pressure'', ''rov_pressure''],
         rows = [[Text ''12.4'', Text ''12.5'']]\<rparr>"
    by code_simp
  then show ?thesis
    using filter_time_and_pressure_data_total_only_unfiltered [OF i j r] by simp
qed


section \<open>Properties of the renaming\<close>






section \<open>Properties of the log parser\<close>
















end
